theory Spec2Isabelle
  imports Complex_Main
begin

section \<open>The beat clock (hook useVideoBeatSync)\<close>

text \<open>
  The practice page calls the hook as
  \<^verbatim>\<open>useVideoBeatSync({ bpm: routine.bpm, totalBeats, videoCurrentTime, videoDuration, onBeatChange })\<close>
  and reads \<^verbatim>\<open>state.currentBeat\<close> and \<^verbatim>\<open>state.beatProgress\<close> from its result. JavaScript
  numbers are modelled as exact reals; beat indices are integers.
\<close>

record beat_state =
  currentBeat :: int
  beatProgress :: real

datatype config_error = ConfigurationError

text \<open>
  Modelled from the spec: the file hooks/useVideoBeatSync is not among the sources, only its
  call in the practice page is. The specification gives the elapsed beats as
  \<^verbatim>\<open>elapsedBeats = elapsedTime_seconds * bpm / 60\<close>.
\<close>

definition elapsedBeats :: "real \<Rightarrow> real \<Rightarrow> real" where
  "elapsedBeats bpm elapsedTime = elapsedTime * bpm / 60"

text \<open>
  Modelled from the spec: the hook itself, missing for the same reason. The specification
  gives \<^verbatim>\<open>currentBeat = floor(elapsedBeats)\<close>, clamped so that it never exceeds
  \<^verbatim>\<open>totalBeats - 1\<close>, the beat progress as the fractional remainder of the elapsed beats
  also past the end of the track, and a configuration error reported to the caller for
  \<^verbatim>\<open>bpm <= 0\<close> or \<^verbatim>\<open>totalBeats <= 0\<close>. The elapsed time is the page's
  \<^verbatim>\<open>videoCurrentTime\<close>.
\<close>

definition useVideoBeatSync :: "real \<Rightarrow> int \<Rightarrow> real \<Rightarrow> config_error + beat_state" where
  "useVideoBeatSync bpm totalBeats elapsedTime =
     (if bpm \<le> 0 \<or> totalBeats \<le> 0 then Inl ConfigurationError
      else
        let eb = elapsedBeats bpm elapsedTime
        in Inr \<lparr>currentBeat = min \<lfloor>eb\<rfloor> (totalBeats - 1),
                beatProgress = eb - of_int \<lfloor>eb\<rfloor>\<rparr>)"

text \<open>
  The reference definition in the words of the data model, without the clamp: the beat is
  the floor of the elapsed beats and the progress is what is left over.
\<close>

definition referenceBeatState :: "real \<Rightarrow> real \<Rightarrow> beat_state" where
  "referenceBeatState bpm elapsedTime =
     (let eb = elapsedTime * bpm / 60; beat = \<lfloor>eb\<rfloor>
      in \<lparr>currentBeat = beat, beatProgress = eb - of_int beat\<rparr>)"

section \<open>The backend client (services/danceAPI.ts)\<close>

text \<open>
  A rejected promise is \<open>Inl\<close> of the reason, a fulfilled one \<open>Inr\<close> of the value. The only
  error the client creates itself is \<^verbatim>\<open>new Error(`HTTP error! status: ${response.status}`)\<close>,
  kept here with its status; any other reason (a failed \<^verbatim>\<open>fetch\<close>, a body that
  \<^verbatim>\<open>response.json()\<close> cannot parse) comes from the platform and is passed through.
\<close>

datatype js_error = HttpError nat | Thrown string

datatype payload = JString string | JNumber real | JObject "(string \<times> payload) list"

text \<open>
  The options of a request; \<open>http_method\<close> is the property \<^verbatim>\<open>method\<close>, and the body
  is kept as the object that the client hands to \<^verbatim>\<open>JSON.stringify\<close>.
\<close>

record request_init =
  http_method :: "string option"
  headers :: "(string \<times> string) list option"
  body :: "payload option"

text \<open>
  A \<^verbatim>\<open>Response\<close>: its status and the outcome of \<^verbatim>\<open>response.json()\<close>, typed by the
  generic parameter of \<^verbatim>\<open>request<T>\<close>. The flag \<^verbatim>\<open>response.ok\<close> is, by the Fetch
  standard, true for the statuses 200 to 299.
\<close>

record 'a response =
  status :: nat
  json :: "js_error + 'a"

definition ok :: "'a response \<Rightarrow> bool" where
  "ok r = (200 \<le> status r \<and> status r \<le> 299)"

type_synonym 'a fetch = "string \<Rightarrow> request_init \<Rightarrow> js_error + 'a response"

definition API_BASE_URL :: string where
  "API_BASE_URL = ''http://localhost:8000''"

text \<open>
  The second argument of \<^verbatim>\<open>fetch\<close> is
  \<^verbatim>\<open>{ headers: { 'Content-Type': 'application/json', ...options.headers }, ...options }\<close>:
  the options are spread last, so headers given by the caller replace the merged ones.
\<close>

definition fetch_init :: "request_init \<Rightarrow> request_init" where
  "fetch_init options =
     \<lparr>http_method = http_method options,
      headers = (case headers options of
                   None \<Rightarrow> Some [(''Content-Type'', ''application/json'')]
                 | Some h \<Rightarrow> Some h),
      body = body options\<rparr>"

definition request :: "'a fetch \<Rightarrow> string \<Rightarrow> request_init \<Rightarrow> js_error + 'a" where
  "request fetch endpoint options =
     (let url = API_BASE_URL @ endpoint in
      case fetch url (fetch_init options) of
        Inl e \<Rightarrow> Inl e
      | Inr response \<Rightarrow>
          if \<not> ok response then Inl (HttpError (status response))
          else json response)"

definition no_options :: request_init where
  "no_options = \<lparr>http_method = None, headers = None, body = None\<rparr>"

definition post :: "payload option \<Rightarrow> request_init" where
  "post b = \<lparr>http_method = Some ''POST'', headers = None, body = b\<rparr>"

record update_config_request =
  pose_weight :: "real option"
  motion_weight :: "real option"
  snapshot_interval :: "real option"

text \<open>\<^verbatim>\<open>JSON.stringify\<close> leaves out the properties that are undefined.\<close>

definition stringify_config :: "update_config_request \<Rightarrow> payload" where
  "stringify_config config =
     JObject (List.map_filter (\<lambda>(k, v). map_option (\<lambda>x. (k, JNumber x)) v)
       [(''pose_weight'', pose_weight config),
        (''motion_weight'', motion_weight config),
        (''snapshot_interval'', snapshot_interval config)])"

definition processSnapshot :: "'a fetch \<Rightarrow> string \<Rightarrow> js_error + 'a" where
  "processSnapshot fetch imageData =
     request fetch ''/api/sessions/snapshot'' (post (Some (JObject [(''image'', JString imageData)])))"

definition startSession :: "'a fetch \<Rightarrow> js_error + 'a" where
  "startSession fetch = request fetch ''/api/sessions/start'' (post None)"

definition endSession :: "'a fetch \<Rightarrow> js_error + 'a" where
  "endSession fetch = request fetch ''/api/sessions/end'' (post None)"

definition loadReferenceVideo :: "'a fetch \<Rightarrow> string \<Rightarrow> js_error + 'a" where
  "loadReferenceVideo fetch videoName =
     request fetch ''/api/reference/load'' (post (Some (JObject [(''video_name'', JString videoName)])))"

definition updateConfig :: "'a fetch \<Rightarrow> update_config_request \<Rightarrow> js_error + 'a" where
  "updateConfig fetch config =
     request fetch ''/api/config/update'' (post (Some (stringify_config config)))"

definition getConfig :: "'a fetch \<Rightarrow> js_error + 'a" where
  "getConfig fetch = request fetch ''/api/config'' no_options"

definition getSessionStatus :: "'a fetch \<Rightarrow> js_error + 'a" where
  "getSessionStatus fetch = request fetch ''/api/sessions/status'' no_options"

definition testConnection :: "'a fetch \<Rightarrow> js_error + 'a" where
  "testConnection fetch = request fetch ''/health'' no_options"

definition getCurrentReference :: "'a fetch \<Rightarrow> js_error + 'a" where
  "getCurrentReference fetch = request fetch ''/api/reference/current'' no_options"

section \<open>The session hook (hooks/useDanceSession.ts)\<close>

record start_session_response =
  session_id :: string
  message :: string

record comparison_result =
  pose_score :: real
  motion_score :: real
  combined_score :: real
  best_match_idx :: int
  timing_offset :: real

record process_snapshot_response =
  timestamp :: real
  pose_landmarks :: "real list list option"
  hand_landmarks :: "real list list list"
  hand_classifications :: "(string \<times> real) list"
  preprocessed_angles :: "(string \<times> real) list"
  comparison_result :: "comparison_result option"
  live_feedback :: "string option"
  success :: bool
  error :: "string option"

text \<open>
  What the handlers write to the console: the label of a \<^verbatim>\<open>console.log\<close>, and the label
  and the error of a \<^verbatim>\<open>console.error\<close>.
\<close>

datatype console_entry = ConsoleLog string | ConsoleError string js_error

record dance_session =
  sessionId :: "string option"
  isSessionActive :: bool
  session_console :: "console_entry list"

definition startDanceSession ::
  "start_session_response fetch \<Rightarrow> dance_session
     \<Rightarrow> (js_error + start_session_response) \<times> dance_session" where
  "startDanceSession fetch s =
     (case startSession fetch of
        Inr response \<Rightarrow>
          (Inr response,
           s\<lparr>sessionId := Some (session_id response),
             isSessionActive := True,
             session_console := session_console s @ [ConsoleLog ''Dance session started:'']\<rparr>)
      | Inl err \<Rightarrow>
          (Inl err,
           s\<lparr>session_console :=
               session_console s @ [ConsoleError ''Failed to start dance session:'' err]\<rparr>))"

definition endDanceSession ::
  "start_session_response fetch \<Rightarrow> dance_session
     \<Rightarrow> (js_error + start_session_response) \<times> dance_session" where
  "endDanceSession fetch s =
     (case endSession fetch of
        Inr response \<Rightarrow>
          (Inr response,
           s\<lparr>sessionId := None,
             isSessionActive := False,
             session_console := session_console s @ [ConsoleLog ''Dance session ended:'']\<rparr>)
      | Inl err \<Rightarrow>
          (Inl err,
           s\<lparr>session_console :=
               session_console s @ [ConsoleError ''Failed to end dance session:'' err]\<rparr>))"

text \<open>The hook's \<^verbatim>\<open>processSnapshot\<close>: the client's result, an error logged and thrown again.\<close>

definition sessionProcessSnapshot ::
  "process_snapshot_response fetch \<Rightarrow> string \<Rightarrow> dance_session
     \<Rightarrow> (js_error + process_snapshot_response) \<times> dance_session" where
  "sessionProcessSnapshot fetch snapshot s =
     (case processSnapshot fetch snapshot of
        Inr response \<Rightarrow> (Inr response, s)
      | Inl err \<Rightarrow>
          (Inl err,
           s\<lparr>session_console :=
               session_console s @ [ConsoleError ''Failed to process snapshot:'' err]\<rparr>))"

section \<open>The practice page (EnhancedPracticePage)\<close>

text \<open>
  The type \<^verbatim>\<open>MockFeedbackResponse\<close> is declared in services/mockFeedbackService, which is
  not at hand. The page reads \<^verbatim>\<open>comparison_result\<close>, its \<^verbatim>\<open>combined_score\<close> and
  \<^verbatim>\<open>live_feedback\<close> from it, the fields of \<^verbatim>\<open>ProcessSnapshotResponse\<close>, which stands in
  for it.
\<close>

type_synonym mock_feedback_response = process_snapshot_response

text \<open>
  The callbacks handed to \<^verbatim>\<open>setTimeout\<close> by the countdown effect:
  \<^verbatim>\<open>() => setCountdown(countdown - 1)\<close>, which closes over the countdown of its render, and
  the one that begins the practice.
\<close>

datatype timer_callback = DecrementCountdown int | BeginPractice

record timeout =
  delay :: nat
  callback :: timer_callback

text \<open>
  The state of the page: the React state the handlers touch, what the capture hook gives the
  page, the pending timeouts and the console. \<open>countdownTimer\<close> is the handle
  \<^verbatim>\<open>timer\<close> that the effect's cleanup clears; \<open>startTimeouts\<close> are the timeouts of the
  branch \<^verbatim>\<open>countdown === 0\<close>, whose handles are dropped and which nothing clears.

  The hook \<^verbatim>\<open>useSnapshotCapture\<close> is not at hand. The page reads \<^verbatim>\<open>isCapturing\<close> from
  it, which is therefore an input here (the event \<open>CapturingChanged\<close> below), and calls
  \<^verbatim>\<open>startAutoCapture()\<close>, which is recorded as a count of the calls.
\<close>

record practice_page =
  countdown :: "int option"
  hasStarted :: bool
  isPlaying :: bool
  videoCurrentTime :: real
  currentFeedback :: "mock_feedback_response option"
  overallAccuracy :: int
  isCapturing :: bool
  startAutoCaptureCalls :: nat
  countdownTimer :: "timeout option"
  startTimeouts :: "timeout list"
  console :: "console_entry list"

text \<open>The page as mounted: the initial values of its \<^verbatim>\<open>useState\<close> calls, no timer pending.\<close>

definition initialPage :: practice_page where
  "initialPage =
     \<lparr>countdown = None, hasStarted = False, isPlaying = False, videoCurrentTime = 0,
      currentFeedback = None, overallAccuracy = 82, isCapturing = False,
      startAutoCaptureCalls = 0, countdownTimer = None, startTimeouts = [], console = []\<rparr>"

definition startAutoCapture :: "practice_page \<Rightarrow> practice_page" where
  "startAutoCapture s = s\<lparr>startAutoCaptureCalls := Suc (startAutoCaptureCalls s)\<rparr>"

text \<open>
  The camera view takes snapshots on its own under the property
  \<^verbatim>\<open>autoSnapshot={hasStarted && isCapturing}\<close>.
\<close>

definition autoSnapshot :: "practice_page \<Rightarrow> bool" where
  "autoSnapshot s = (hasStarted s \<and> isCapturing s)"

text \<open>
  The body of the countdown effect, run after a render in which \<^verbatim>\<open>countdown\<close> changed
  (the other dependency, \<^verbatim>\<open>startAutoCapture\<close>, is taken to keep its identity):
  nothing for \<^verbatim>\<open>null\<close>; at 0 a timeout of 500 ms that begins the practice and is not
  cleared; otherwise a timeout of 1000 ms that decrements, cleared by the cleanup.
\<close>

definition countdownEffect :: "practice_page \<Rightarrow> practice_page" where
  "countdownEffect s =
     (case countdown s of
        None \<Rightarrow> s
      | Some c \<Rightarrow>
          if c = 0 then
            s\<lparr>startTimeouts := startTimeouts s @ [\<lparr>delay = 500, callback = BeginPractice\<rparr>]\<rparr>
          else
            s\<lparr>countdownTimer := Some \<lparr>delay = 1000, callback = DecrementCountdown c\<rparr>\<rparr>)"

text \<open>
  \<^verbatim>\<open>setCountdown(v)\<close>: setting the value the state already has renders nothing and runs no
  effect; a new value renders, runs the cleanup of the previous effect
  (\<^verbatim>\<open>clearTimeout(timer)\<close>) and then the effect.
\<close>

definition setCountdown :: "int option \<Rightarrow> practice_page \<Rightarrow> practice_page" where
  "setCountdown v s =
     (if countdown s = v then s
      else countdownEffect (s\<lparr>countdown := v, countdownTimer := None\<rparr>))"

definition handleStart :: "practice_page \<Rightarrow> practice_page" where
  "handleStart s = setCountdown (Some 3) s"

definition beginPractice :: "practice_page \<Rightarrow> practice_page" where
  "beginPractice s =
     startAutoCapture ((setCountdown None s)\<lparr>hasStarted := True, isPlaying := True\<rparr>)"

fun runCallback :: "timer_callback \<Rightarrow> practice_page \<Rightarrow> practice_page" where
  "runCallback (DecrementCountdown c) s = setCountdown (Some (c - 1)) s"
| "runCallback BeginPractice s = beginPractice s"

text \<open>A pending timeout expires: it leaves the pending ones and its callback runs.\<close>

definition countdownTimerFires :: "practice_page \<Rightarrow> practice_page" where
  "countdownTimerFires s =
     (case countdownTimer s of
        None \<Rightarrow> s
      | Some t \<Rightarrow> runCallback (callback t) (s\<lparr>countdownTimer := None\<rparr>))"

definition startTimeoutFires :: "practice_page \<Rightarrow> practice_page" where
  "startTimeoutFires s =
     (case startTimeouts s of
        [] \<Rightarrow> s
      | t # ts \<Rightarrow> runCallback (callback t) (s\<lparr>startTimeouts := ts\<rparr>))"

text \<open>
  The Start button, whose \<^verbatim>\<open>onClick\<close> is \<^verbatim>\<open>handleStart\<close>, is rendered under
  \<^verbatim>\<open>!hasStarted && countdown === null\<close>; a click can reach the handler only then.
\<close>

definition startButtonShown :: "practice_page \<Rightarrow> bool" where
  "startButtonShown s = (\<not> hasStarted s \<and> countdown s = None)"

definition clickStart :: "practice_page \<Rightarrow> practice_page" where
  "clickStart s = (if startButtonShown s then handleStart s else s)"

definition onPlayPause :: "practice_page \<Rightarrow> practice_page" where
  "onPlayPause s = s\<lparr>isPlaying := \<not> isPlaying s\<rparr>"

definition onRestart :: "practice_page \<Rightarrow> practice_page" where
  "onRestart s = s\<lparr>videoCurrentTime := 0, isPlaying := True\<rparr>"

text \<open>
  The scores are JavaScript numbers, binary64 floating point values, and the page multiplies
  them in that arithmetic: the product is the exact product rounded to the nearest binary64
  value, a tie going to the even significand. \<open>quantum x\<close> is the exponent of the unit in the
  last place at \<open>x\<close> (53 bits of significand, the subnormal range below \<open>2 powi (-1022)\<close>
  included). Values beyond the finite range and the special values (infinities, NaN, the
  negative zero) are not represented; the scores at issue lie between 0 and 1.
\<close>

definition roundTiesToEven :: "real \<Rightarrow> int" where
  "roundTiesToEven y =
     (let n = \<lfloor>y\<rfloor>; r = y - of_int n in
      if r < 1 / 2 then n
      else if 1 / 2 < r then n + 1
      else if even n then n else n + 1)"

definition quantum :: "real \<Rightarrow> int" where
  "quantum x = max (\<lfloor>log 2 \<bar>x\<bar>\<rfloor> - 52) (- 1074)"

definition binary64 :: "real \<Rightarrow> real" where
  "binary64 x =
     (if x = 0 then 0
      else of_int (roundTiesToEven (x / 2 powi quantum x)) * 2 powi quantum x)"

text \<open>\<^verbatim>\<open>Math.round\<close> rounds to the nearest integer, a half upwards.\<close>

definition mathRound :: "real \<Rightarrow> int" where
  "mathRound x = \<lfloor>x + 1 / 2\<rfloor>"

text \<open>
  \<^verbatim>\<open>handleSnapshot\<close> is asynchronous. Before the request it tests \<^verbatim>\<open>hasStarted\<close>
  (\<open>snapshotIssued\<close>); the request is awaited, and the rest of the handler
  (\<open>snapshotSettled\<close>) runs when the promise has settled, on the state the page has by then:
  its state setters do not read anything. \<open>handleSnapshot\<close> is the whole handler when
  nothing else happens during the wait.
\<close>

definition snapshotIssued :: "practice_page \<Rightarrow> bool" where
  "snapshotIssued s = hasStarted s"

definition snapshotSettled ::
  "js_error + mock_feedback_response \<Rightarrow> practice_page \<Rightarrow> practice_page" where
  "snapshotSettled outcome s =
     (case outcome of
        Inr feedback \<Rightarrow>
          s\<lparr>currentFeedback := Some feedback,
            overallAccuracy :=
              (case comparison_result feedback of
                 Some cr \<Rightarrow> mathRound (binary64 (combined_score cr * 100))
               | None \<Rightarrow> overallAccuracy s),
            console := console s @ [ConsoleLog ''Feedback received:'']\<rparr>
      | Inl err \<Rightarrow>
          s\<lparr>console := console s @ [ConsoleError ''Error processing snapshot:'' err]\<rparr>)"

definition handleSnapshot ::
  "js_error + mock_feedback_response \<Rightarrow> practice_page \<Rightarrow> practice_page" where
  "handleSnapshot outcome s = (if \<not> snapshotIssued s then s else snapshotSettled outcome s)"

text \<open>What can happen to the page, one event at a time.\<close>

datatype page_event =
    ClickStart
  | CountdownTimerFires
  | StartTimeoutFires
  | ClickPlayPause
  | ClickRestart
  | TimeUpdate real
  | Snapshot "js_error + mock_feedback_response"
  | CapturingChanged bool

fun page_step :: "practice_page \<Rightarrow> page_event \<Rightarrow> practice_page" where
  "page_step s ClickStart = clickStart s"
| "page_step s CountdownTimerFires = countdownTimerFires s"
| "page_step s StartTimeoutFires = startTimeoutFires s"
| "page_step s ClickPlayPause = onPlayPause s"
| "page_step s ClickRestart = onRestart s"
| "page_step s (TimeUpdate t) = s\<lparr>videoCurrentTime := t\<rparr>"
| "page_step s (Snapshot outcome) = handleSnapshot outcome s"
| "page_step s (CapturingChanged b) = s\<lparr>isCapturing := b\<rparr>"

definition page_run :: "practice_page \<Rightarrow> page_event list \<Rightarrow> practice_page" where
  "page_run s events = foldl page_step s events"

text \<open>
  A page in practice: mounted, started with a click, counted down, and the capture hook
  reporting that it captures.
\<close>

definition runningPage :: practice_page where
  "runningPage =
     page_run initialPage
       [ClickStart, CountdownTimerFires, CountdownTimerFires, CountdownTimerFires,
        StartTimeoutFires, CapturingChanged True]"

text \<open>A response of the feedback service whose comparison result carries the given score.\<close>

definition feedbackWithScore :: "real \<Rightarrow> mock_feedback_response" where
  "feedbackWithScore c =
     \<lparr>timestamp = 0, pose_landmarks = None, hand_landmarks = [], hand_classifications = [],
      preprocessed_angles = [],
      comparison_result =
        Some \<lparr>pose_score = c, motion_score = c, combined_score = c, best_match_idx = 0,
              timing_offset = 0\<rparr>,
      live_feedback = None, success = True, error = None\<rparr>"

section \<open>The feedback column (LiveFeedback)\<close>

datatype message_type = Success | Warning | Tip

record feedback_message =
  message_id :: int
  message_text :: string
  message_type :: message_type

text \<open>
  The state of the component: the two \<^verbatim>\<open>useState\<close> values, the property
  \<^verbatim>\<open>isPlaying\<close> (here \<open>playing\<close>), the time in milliseconds since the component was
  mounted, the time at which the installed interval is due next, and the removal timeouts
  (3000 ms) still pending, each with its due time and the id it removes, in the order in
  which they were set.
\<close>

record live_feedback_state =
  feedbackMessages :: "feedback_message list"
  messageId :: int
  playing :: bool
  clock :: nat
  intervalDue :: "nat option"
  removalTimeouts :: "(nat \<times> int) list"




text \<open>
  One run of the interval's callback, with the entry \<^verbatim>\<open>randomMessage\<close> it drew: a new id,
  the message appended at the tail, and a timeout of 3000 ms that will remove that id.
\<close>

definition intervalCallback ::
  "string \<times> message_type \<Rightarrow> live_feedback_state \<Rightarrow> live_feedback_state" where
  "intervalCallback randomMessage s =
     (let newId = messageId s + 1 in
      s\<lparr>messageId := newId,
        feedbackMessages := feedbackMessages s @
          [\<lparr>message_id = newId, message_text = fst randomMessage,
            message_type = snd randomMessage\<rparr>],
        removalTimeouts := removalTimeouts s @ [(clock s + 3000, newId)]\<rparr>)"









section \<open>Properties of the beat clock\<close>

lemma elapsedBeats_nonneg:
  "0 \<le> t \<Longrightarrow> 0 < bpm \<Longrightarrow> 0 \<le> elapsedBeats bpm t"
  by (simp add: elapsedBeats_def)

text \<open>
  C1. For every elapsed time \<open>\<ge> 0\<close>, tempo \<open>> 0\<close> and beat count \<open>> 0\<close> the beat clock
  returns a beat state (no configuration error) whose current beat lies between 0 and
  \<open>totalBeats - 1\<close> and whose beat progress lies in the half-open interval from 0 to 1; once
  the elapsed beats reach \<open>totalBeats\<close> the current beat is exactly \<open>totalBeats - 1\<close>.
\<close>

theorem beat_clock_in_range:
  assumes "0 \<le> elapsedTime" and "0 < bpm" and "0 < totalBeats"
  shows "\<exists>st. useVideoBeatSync bpm totalBeats elapsedTime = Inr st
           \<and> 0 \<le> currentBeat st \<and> currentBeat st \<le> totalBeats - 1
           \<and> 0 \<le> beatProgress st \<and> beatProgress st < 1
           \<and> (of_int totalBeats \<le> elapsedBeats bpm elapsedTime
                 \<longrightarrow> currentBeat st = totalBeats - 1)"
proof -
  let ?eb = "elapsedBeats bpm elapsedTime"
  let ?st = "\<lparr>currentBeat = min \<lfloor>?eb\<rfloor> (totalBeats - 1),
              beatProgress = ?eb - of_int \<lfloor>?eb\<rfloor>\<rparr>"
  have run: "useVideoBeatSync bpm totalBeats elapsedTime = Inr ?st"
    using assms by (simp add: useVideoBeatSync_def Let_def)
  have "0 \<le> ?eb"
    using assms(1,2) by (rule elapsedBeats_nonneg)
  then have lo: "0 \<le> \<lfloor>?eb\<rfloor>"
    by simp
  have beat_lo: "0 \<le> currentBeat ?st"
    using lo assms(3) by simp
  have beat_hi: "currentBeat ?st \<le> totalBeats - 1"
    by simp
  have prog_lo: "0 \<le> beatProgress ?st"
    by simp
  have prog_hi: "beatProgress ?st < 1"
    by simp linarith
  have clamp: "of_int totalBeats \<le> ?eb \<longrightarrow> currentBeat ?st = totalBeats - 1"
  proof
    assume "of_int totalBeats \<le> ?eb"
    then have "totalBeats \<le> \<lfloor>?eb\<rfloor>"
      by (simp add: le_floor_iff)
    then show "currentBeat ?st = totalBeats - 1"
      by simp
  qed
  from run beat_lo beat_hi prog_lo prog_hi clamp show ?thesis
    by blast
qed

theorem beat_clock_in_range_witness:
  "\<exists>st. useVideoBeatSync 120 32 20 = Inr st
      \<and> 0 \<le> currentBeat st \<and> currentBeat st \<le> 32 - 1
      \<and> 0 \<le> beatProgress st \<and> beatProgress st < 1
      \<and> currentBeat st = 31"
proof -
  have past_end: "of_int (32::int) \<le> elapsedBeats 120 20"
    by (simp add: elapsedBeats_def)
  from beat_clock_in_range [of 20 120 32] past_end show ?thesis
    by auto
qed

text \<open>
  C2. For a tempo \<open>> 0\<close> and a beat count \<open>> 0\<close> the beat clock computes its output by
  the reference definition of the data model: the elapsed beats are
  \<open>elapsedTime * bpm / 60\<close>, the current beat is their floor, held at \<open>totalBeats - 1\<close> by the
  clamp of the same definition, and the beat progress is the elapsed beats minus that floor.
  As long as the floor does not exceed \<open>totalBeats - 1\<close> the output is the reference state
  itself, the progress being the elapsed beats minus the current beat. The witness is the
  scenario of the specification: 120 bpm, 32 beats, 8.0 seconds give 16 elapsed beats, beat
  16 and progress 0.
\<close>

theorem beat_clock_follows_reference:
  assumes "0 < bpm" and "0 < totalBeats"
  shows "\<exists>st. useVideoBeatSync bpm totalBeats elapsedTime = Inr st
           \<and> elapsedBeats bpm elapsedTime = elapsedTime * bpm / 60
           \<and> currentBeat st = min \<lfloor>elapsedBeats bpm elapsedTime\<rfloor> (totalBeats - 1)
           \<and> beatProgress st =
                elapsedBeats bpm elapsedTime - of_int \<lfloor>elapsedBeats bpm elapsedTime\<rfloor>
           \<and> (\<lfloor>elapsedBeats bpm elapsedTime\<rfloor> \<le> totalBeats - 1 \<longrightarrow>
                  st = referenceBeatState bpm elapsedTime
                  \<and> currentBeat st = \<lfloor>elapsedBeats bpm elapsedTime\<rfloor>
                  \<and> beatProgress st = elapsedBeats bpm elapsedTime - of_int (currentBeat st))"
  using assms
  by (simp add: useVideoBeatSync_def referenceBeatState_def elapsedBeats_def Let_def min_def)

theorem beat_clock_follows_reference_witness:
  "elapsedBeats 120 8 = 16
   \<and> useVideoBeatSync 120 32 8 = Inr \<lparr>currentBeat = 16, beatProgress = 0\<rparr>
   \<and> referenceBeatState 120 8 = \<lparr>currentBeat = 16, beatProgress = 0\<rparr>"
proof -
  have beats: "elapsedBeats 120 8 = 16"
    by (simp add: elapsedBeats_def)
  from beat_clock_follows_reference [of 120 32 8]
  obtain st where st: "useVideoBeatSync 120 32 8 = Inr st"
    and beat: "currentBeat st = min \<lfloor>elapsedBeats 120 8\<rfloor> (32 - 1)"
    and reference: "\<lfloor>elapsedBeats 120 8\<rfloor> \<le> 32 - 1 \<longrightarrow> st = referenceBeatState 120 8"
    by auto
  have "st = referenceBeatState 120 8"
    using reference by (simp add: beats)
  moreover have "referenceBeatState 120 8 = \<lparr>currentBeat = 16, beatProgress = 0\<rparr>"
    by (simp add: referenceBeatState_def Let_def)
  ultimately show ?thesis
    using st beats by simp
qed

section \<open>Properties of the backend client\<close>

lemma request_response:
  assumes "fetch (API_BASE_URL @ endpoint) (fetch_init options) = Inr r"
  shows "request fetch endpoint options = (if ok r then json r else Inl (HttpError (status r)))"
  using assms by (simp add: request_def Let_def)

lemma request_fetch_rejected:
  assumes "fetch (API_BASE_URL @ endpoint) (fetch_init options) = Inl e"
  shows "request fetch endpoint options = Inl e"
  using assms by (simp add: request_def Let_def)

lemma request_body_rejected:
  assumes "fetch (API_BASE_URL @ endpoint) (fetch_init options) = Inr r"
    and "ok r" and "json r = Inl e"
  shows "request fetch endpoint options = Inl e"
  using assms by (simp add: request_def Let_def)

lemmas api_methods =
  processSnapshot_def startSession_def endSession_def loadReferenceVideo_def
  updateConfig_def getConfig_def getSessionStatus_def testConnection_def
  getCurrentReference_def

text \<open>
  C9 (as stated). A success status does not keep a call from rejecting: an answer with
  status 204 and an empty body has \<^verbatim>\<open>response.ok\<close>, \<^verbatim>\<open>response.json()\<close> rejects on
  it, and the rejection is what the client returns.
\<close>

theorem api_success_status_rejects_counterexample:
  "ok (\<lparr>status = 204, json = Inl (Thrown ''Unexpected end of JSON input'')\<rparr> :: unit response)
   \<and> getConfig (\<lambda>url init.
          Inr (\<lparr>status = 204, json = Inl (Thrown ''Unexpected end of JSON input'')\<rparr>
                 :: unit response))
       = Inl (Thrown ''Unexpected end of JSON input'')"
  by (simp add: ok_def getConfig_def request_def)

text \<open>
  C9 (amended). Each of the nine methods of the client returns what the answer of the
  backend decides. A status that is not a success status is a rejection with the error that
  carries the status, never swallowed. For a success status the result is the outcome of
  \<^verbatim>\<open>response.json()\<close>: the parsed body, or a rejection when the body does not parse. When
  \<^verbatim>\<open>fetch\<close> itself rejects, so does the call.
\<close>

theorem api_result_by_status:
  assumes answered: "\<And>url init. fetch url init = outcome"
  shows "\<forall>result \<in> set [processSnapshot fetch imageData, startSession fetch, endSession fetch,
            loadReferenceVideo fetch videoName, updateConfig fetch config, getConfig fetch,
            getSessionStatus fetch, testConnection fetch, getCurrentReference fetch].
          result =
            (case outcome of
               Inl e \<Rightarrow> Inl e
             | Inr r \<Rightarrow> if ok r then json r else Inl (HttpError (status r)))"
proof -
  have each: "request fetch endpoint options =
      (case outcome of
         Inl e \<Rightarrow> Inl e
       | Inr r \<Rightarrow> if ok r then json r else Inl (HttpError (status r)))" for endpoint options
    by (simp add: request_def Let_def answered split: sum.splits)
  show ?thesis
    by (simp add: api_methods each)
qed

theorem api_result_by_status_witness:
  "processSnapshot (\<lambda>url init. Inr \<lparr>status = 500, json = Inr ''body''\<rparr>) ''image''
      = Inl (HttpError 500)
   \<and> startSession (\<lambda>url init. Inr \<lparr>status = 500, json = Inr ''body''\<rparr>) = Inl (HttpError 500)
   \<and> testConnection (\<lambda>url init. Inr \<lparr>status = 200, json = Inr ''body''\<rparr>) = Inr ''body''
   \<and> getSessionStatus (\<lambda>url init. Inl (Thrown ''Failed to fetch''))
      = (Inl (Thrown ''Failed to fetch'') :: js_error + string)"
proof -
  let ?bad = "\<lparr>status = 500, json = Inr ''body''\<rparr> :: string response"
  let ?good = "\<lparr>status = 200, json = Inr ''body''\<rparr> :: string response"
  let ?down = "Inl (Thrown ''Failed to fetch'') :: js_error + string response"
  have bad: "\<not> ok ?bad" and good: "ok ?good"
    by (simp_all add: ok_def)
  from api_result_by_status [of "\<lambda>url init. Inr ?bad" "Inr ?bad" "''image''"]
  have "processSnapshot (\<lambda>url init. Inr ?bad) ''image'' = Inl (HttpError 500)"
    and "startSession (\<lambda>url init. Inr ?bad) = Inl (HttpError 500)"
    using bad by simp_all
  moreover
  from api_result_by_status [of "\<lambda>url init. Inr ?good" "Inr ?good"]
  have "testConnection (\<lambda>url init. Inr ?good) = Inr ''body''"
    using good by simp
  moreover
  from api_result_by_status [of "\<lambda>url init. ?down" ?down]
  have "getSessionStatus (\<lambda>url init. ?down) = (Inl (Thrown ''Failed to fetch'') :: js_error + string)"
    by simp
  ultimately show ?thesis
    by simp
qed

section \<open>Properties of the session hook\<close>

text \<open>
  C10. The session state follows the outcome of the call. When \<open>startSession\<close> succeeds,
  \<open>startDanceSession\<close> returns the response, the session id is the returned one and the
  session is active; when \<open>endSession\<close> succeeds, \<open>endDanceSession\<close> returns the response,
  the session id is null and the session is inactive; when either call fails, the error goes
  on to the caller and both fields are what they were.
\<close>

theorem session_state_follows_outcome:
  fixes fetch :: "start_session_response fetch" and s :: dance_session
  defines "started \<equiv> startDanceSession fetch s" and "ended \<equiv> endDanceSession fetch s"
  shows "(\<forall>response. startSession fetch = Inr response \<longrightarrow>
            fst started = Inr response
            \<and> sessionId (snd started) = Some (session_id response)
            \<and> isSessionActive (snd started))
       \<and> (\<forall>err. startSession fetch = Inl err \<longrightarrow>
            fst started = Inl err
            \<and> sessionId (snd started) = sessionId s
            \<and> isSessionActive (snd started) = isSessionActive s)
       \<and> (\<forall>response. endSession fetch = Inr response \<longrightarrow>
            fst ended = Inr response
            \<and> sessionId (snd ended) = None
            \<and> \<not> isSessionActive (snd ended))
       \<and> (\<forall>err. endSession fetch = Inl err \<longrightarrow>
            fst ended = Inl err
            \<and> sessionId (snd ended) = sessionId s
            \<and> isSessionActive (snd ended) = isSessionActive s)"
  by (simp add: started_def ended_def startDanceSession_def endDanceSession_def)

theorem session_state_follows_outcome_witness:
  "sessionId (snd (startDanceSession
       (\<lambda>url init. Inr \<lparr>status = 200, json = Inr \<lparr>session_id = ''s1'', message = ''ok''\<rparr>\<rparr>)
       \<lparr>sessionId = None, isSessionActive = False, session_console = []\<rparr>)) = Some ''s1''
   \<and> isSessionActive (snd (startDanceSession
       (\<lambda>url init. Inr \<lparr>status = 200, json = Inr \<lparr>session_id = ''s1'', message = ''ok''\<rparr>\<rparr>)
       \<lparr>sessionId = None, isSessionActive = False, session_console = []\<rparr>))
   \<and> fst (endDanceSession
       (\<lambda>url init. Inr \<lparr>status = 500, json = Inr \<lparr>session_id = ''s1'', message = ''ok''\<rparr>\<rparr>)
       \<lparr>sessionId = Some ''s1'', isSessionActive = True, session_console = []\<rparr>)
       = Inl (HttpError 500)
   \<and> sessionId (snd (endDanceSession
       (\<lambda>url init. Inr \<lparr>status = 500, json = Inr \<lparr>session_id = ''s1'', message = ''ok''\<rparr>\<rparr>)
       \<lparr>sessionId = Some ''s1'', isSessionActive = True, session_console = []\<rparr>)) = Some ''s1''
   \<and> isSessionActive (snd (endDanceSession
       (\<lambda>url init. Inr \<lparr>status = 500, json = Inr \<lparr>session_id = ''s1'', message = ''ok''\<rparr>\<rparr>)
       \<lparr>sessionId = Some ''s1'', isSessionActive = True, session_console = []\<rparr>))"
proof -
  let ?body = "\<lparr>session_id = ''s1'', message = ''ok''\<rparr>"
  let ?good = "(\<lambda>url init. Inr \<lparr>status = 200, json = Inr ?body\<rparr>)
                 :: start_session_response fetch"
  let ?bad = "(\<lambda>url init. Inr \<lparr>status = 500, json = Inr ?body\<rparr>)
                :: start_session_response fetch"
  let ?idle = "\<lparr>sessionId = None, isSessionActive = False, session_console = []\<rparr>"
  let ?active = "\<lparr>sessionId = Some ''s1'', isSessionActive = True, session_console = []\<rparr>"
  have good: "startSession ?good = Inr ?body"
    by (simp add: startSession_def request_def ok_def)
  have bad: "endSession ?bad = Inl (HttpError 500)"
    by (simp add: endSession_def request_def ok_def)
  from session_state_follows_outcome [of ?good ?idle] good
  have a: "sessionId (snd (startDanceSession ?good ?idle)) = Some ''s1''
         \<and> isSessionActive (snd (startDanceSession ?good ?idle))"
    by simp
  from session_state_follows_outcome [of ?bad ?active] bad
  have b: "fst (endDanceSession ?bad ?active) = Inl (HttpError 500)
         \<and> sessionId (snd (endDanceSession ?bad ?active)) = Some ''s1''
         \<and> isSessionActive (snd (endDanceSession ?bad ?active))"
    by simp
  from a b show ?thesis
    by simp
qed

section \<open>Properties of the countdown\<close>

lemma setCountdown_Some: "countdown (setCountdown (Some c) s) = Some c"
  by (simp add: setCountdown_def countdownEffect_def)

lemma beginPractice_hasStarted: "hasStarted (beginPractice s)"
  by (simp add: beginPractice_def startAutoCapture_def)

lemma runCallback_keeps_button_hidden: "\<not> startButtonShown (runCallback cb s)"
  by (cases cb) (simp_all add: startButtonShown_def setCountdown_Some beginPractice_hasStarted)

lemma handleSnapshot_button:
  "startButtonShown (handleSnapshot outcome s) = startButtonShown s"
  by (simp add: handleSnapshot_def snapshotSettled_def startButtonShown_def split: sum.splits)

lemma page_step_keeps_button_hidden:
  assumes "\<not> startButtonShown s"
  shows "\<not> startButtonShown (page_step s e)"
proof (cases e)
  case ClickStart
  with assms show ?thesis by (simp add: clickStart_def)
next
  case CountdownTimerFires
  with assms show ?thesis
    by (simp add: countdownTimerFires_def runCallback_keeps_button_hidden split: option.splits)
next
  case StartTimeoutFires
  with assms show ?thesis
    by (simp add: startTimeoutFires_def runCallback_keeps_button_hidden split: list.splits)
next
  case ClickPlayPause
  with assms show ?thesis by (simp add: onPlayPause_def startButtonShown_def)
next
  case ClickRestart
  with assms show ?thesis by (simp add: onRestart_def startButtonShown_def)
next
  case (TimeUpdate t)
  with assms show ?thesis by (simp add: startButtonShown_def)
next
  case (Snapshot outcome)
  with assms show ?thesis by (simp add: handleSnapshot_button)
next
  case (CapturingChanged b)
  with assms show ?thesis by (simp add: startButtonShown_def)
qed

lemma page_run_keeps_button_hidden:
  "\<not> startButtonShown s \<Longrightarrow> \<not> startButtonShown (page_run s events)"
  unfolding page_run_def
  by (induction events arbitrary: s) (simp_all add: page_step_keeps_button_hidden)

lemma runningPage_eq:
  "runningPage =
     initialPage\<lparr>hasStarted := True, isPlaying := True, isCapturing := True,
       startAutoCaptureCalls := 1\<rparr>"
  by (simp add: runningPage_def page_run_def clickStart_def startButtonShown_def
      handleStart_def countdownTimerFires_def startTimeoutFires_def setCountdown_def
      countdownEffect_def beginPractice_def startAutoCapture_def initialPage_def)

lemma handleStart_button: "\<not> startButtonShown (handleStart s)"
  by (simp add: handleStart_def startButtonShown_def setCountdown_Some)

text \<open>
  C3. From an idle page (countdown null, no timeout pending) \<open>handleStart\<close> sets the
  countdown to 3 and leaves a timeout of 1000 ms pending. Each expiry of that timeout
  lowers the countdown by one and leaves the next timeout of 1000 ms, down to 0, where a
  timeout of 500 ms is pending instead. When that one expires the countdown is null again,
  the page has started, the video plays, \<open>startAutoCapture\<close> has been called once more and
  no timeout is left.
\<close>

theorem start_runs_countdown_then_practice:
  fixes s :: practice_page
  assumes idle: "countdown s = None" "countdownTimer s = None" "startTimeouts s = []"
  defines "s3 \<equiv> handleStart s"
    and "s2 \<equiv> countdownTimerFires (handleStart s)"
    and "s1 \<equiv> countdownTimerFires (countdownTimerFires (handleStart s))"
    and "s0 \<equiv> countdownTimerFires (countdownTimerFires (countdownTimerFires (handleStart s)))"
  shows "s3 = s\<lparr>countdown := Some 3,
                countdownTimer := Some \<lparr>delay = 1000, callback = DecrementCountdown 3\<rparr>\<rparr>
       \<and> s2 = s\<lparr>countdown := Some 2,
                countdownTimer := Some \<lparr>delay = 1000, callback = DecrementCountdown 2\<rparr>\<rparr>
       \<and> s1 = s\<lparr>countdown := Some 1,
                countdownTimer := Some \<lparr>delay = 1000, callback = DecrementCountdown 1\<rparr>\<rparr>
       \<and> s0 = s\<lparr>countdown := Some 0,
                startTimeouts := [\<lparr>delay = 500, callback = BeginPractice\<rparr>]\<rparr>
       \<and> startTimeoutFires s0 =
           s\<lparr>hasStarted := True, isPlaying := True,
             startAutoCaptureCalls := Suc (startAutoCaptureCalls s)\<rparr>
       \<and> countdown (startTimeoutFires s0) = None
       \<and> countdownTimer (startTimeoutFires s0) = None
       \<and> startTimeouts (startTimeoutFires s0) = []"
proof -
  have a: "s3 = s\<lparr>countdown := Some 3,
                countdownTimer := Some \<lparr>delay = 1000, callback = DecrementCountdown 3\<rparr>\<rparr>"
    using idle by (simp add: s3_def handleStart_def setCountdown_def countdownEffect_def)
  have b: "s2 = s\<lparr>countdown := Some 2,
                countdownTimer := Some \<lparr>delay = 1000, callback = DecrementCountdown 2\<rparr>\<rparr>"
    unfolding s2_def a [unfolded s3_def]
    by (simp add: countdownTimerFires_def setCountdown_def countdownEffect_def)
  have c: "s1 = s\<lparr>countdown := Some 1,
                countdownTimer := Some \<lparr>delay = 1000, callback = DecrementCountdown 1\<rparr>\<rparr>"
    unfolding s1_def b [unfolded s2_def]
    by (simp add: countdownTimerFires_def setCountdown_def countdownEffect_def)
  have d: "s0 = s\<lparr>countdown := Some 0,
                startTimeouts := [\<lparr>delay = 500, callback = BeginPractice\<rparr>]\<rparr>"
    unfolding s0_def c [unfolded s1_def]
    using idle by (simp add: countdownTimerFires_def setCountdown_def countdownEffect_def)
  have e: "startTimeoutFires s0 =
           s\<lparr>hasStarted := True, isPlaying := True,
             startAutoCaptureCalls := Suc (startAutoCaptureCalls s)\<rparr>"
    unfolding d
    using idle
    by (simp add: startTimeoutFires_def beginPractice_def startAutoCapture_def
        setCountdown_def countdownEffect_def)
  from a b c d e idle show ?thesis
    by simp
qed

theorem start_runs_countdown_then_practice_witness:
  "countdown (handleStart initialPage) = Some 3
   \<and> countdown (countdownTimerFires (handleStart initialPage)) = Some 2
   \<and> countdown (countdownTimerFires (countdownTimerFires (handleStart initialPage))) = Some 1
   \<and> countdown (countdownTimerFires (countdownTimerFires (countdownTimerFires
        (handleStart initialPage)))) = Some 0
   \<and> startTimeoutFires (countdownTimerFires (countdownTimerFires (countdownTimerFires
        (handleStart initialPage))))
       = initialPage\<lparr>hasStarted := True, isPlaying := True, startAutoCaptureCalls := 1\<rparr>"
proof -
  have idle: "countdown initialPage = None" "countdownTimer initialPage = None"
    "startTimeouts initialPage = []"
    by (simp_all add: initialPage_def)
  note run = start_runs_countdown_then_practice [OF idle]
  note at3 = run [THEN conjunct1]
  note at2 = run [THEN conjunct2, THEN conjunct1]
  note at1 = run [THEN conjunct2, THEN conjunct2, THEN conjunct1]
  note at0 = run [THEN conjunct2, THEN conjunct2, THEN conjunct2, THEN conjunct1]
  note running = run [THEN conjunct2, THEN conjunct2, THEN conjunct2, THEN conjunct2,
      THEN conjunct1]
  have "countdown (handleStart initialPage) = Some 3"
    by (subst at3) simp
  moreover have "countdown (countdownTimerFires (handleStart initialPage)) = Some 2"
    by (subst at2) simp
  moreover have
    "countdown (countdownTimerFires (countdownTimerFires (handleStart initialPage))) = Some 1"
    by (subst at1) simp
  moreover have
    "countdown (countdownTimerFires (countdownTimerFires (countdownTimerFires
        (handleStart initialPage)))) = Some 0"
    by (subst at0) simp
  moreover have
    "startTimeoutFires (countdownTimerFires (countdownTimerFires (countdownTimerFires
        (handleStart initialPage))))
       = initialPage\<lparr>hasStarted := True, isPlaying := True, startAutoCaptureCalls := 1\<rparr>"
    by (subst running) (simp add: initialPage_def)
  ultimately show ?thesis
    by (simp only: simp_thms)
qed

lemma page_run_append:
  "page_run s (events @ later) = page_run (page_run s events) later"
  by (simp add: page_run_def)

lemma page_run_Cons:
  "page_run s (e # events) = page_run (page_step s e) events"
  by (simp add: page_run_def)

text \<open>
  C4. Start is the click on the Start button, the one place from which \<open>handleStart\<close> is
  called. A first start on an idle page sets the countdown to 3. From then on, whatever
  events follow, another start changes nothing: the button is not rendered. So a start that
  comes right after the first, or anywhere later in the run, leaves the run what it is
  without it, and the countdown is neither restarted nor doubled. The handler itself, called
  twice in a row, does what one call does.
\<close>

theorem start_again_is_no_op:
  assumes idle: "startButtonShown s"
  shows "countdown (clickStart s) = Some 3
       \<and> clickStart (clickStart s) = clickStart s
       \<and> handleStart (handleStart s) = handleStart s
       \<and> clickStart (page_run (clickStart s) events) = page_run (clickStart s) events
       \<and> page_run s (ClickStart # events @ ClickStart # later)
           = page_run s (ClickStart # events @ later)"
proof -
  have first: "clickStart s = handleStart s"
    using idle by (simp add: clickStart_def)
  have three: "countdown (handleStart s) = Some 3"
    by (simp add: handleStart_def setCountdown_Some)
  then have twice: "handleStart (handleStart s) = handleStart s"
    by (simp add: handleStart_def [of "handleStart s"] setCountdown_def)
  have hidden: "\<not> startButtonShown (page_run (handleStart s) events)" for events
    by (rule page_run_keeps_button_hidden) (rule handleStart_button)
  then have later_click:
    "clickStart (page_run (handleStart s) events) = page_run (handleStart s) events" for events
    by (simp add: clickStart_def)
  have "page_run s (ClickStart # events @ ClickStart # later)
      = page_run (clickStart (page_run (clickStart s) events)) later"
    by (simp add: page_run_Cons page_run_append)
  also have "\<dots> = page_run (page_run (clickStart s) events) later"
    by (simp only: first later_click)
  also have "\<dots> = page_run s (ClickStart # events @ later)"
    by (simp add: page_run_Cons page_run_append)
  finally have dropped: "page_run s (ClickStart # events @ ClickStart # later)
      = page_run s (ClickStart # events @ later)" .
  from three twice later_click [of events] later_click [of "[]"] dropped show ?thesis
    by (simp add: first page_run_def)
qed

theorem start_again_is_no_op_witness:
  "countdown (clickStart initialPage) = Some 3
   \<and> clickStart (clickStart initialPage) = clickStart initialPage
   \<and> countdown (page_run (clickStart initialPage) [CountdownTimerFires]) = Some 2
   \<and> countdown (clickStart (page_run (clickStart initialPage) [CountdownTimerFires])) = Some 2"
proof -
  have idle: "startButtonShown initialPage"
    by (simp add: startButtonShown_def initialPage_def)
  note inst = start_again_is_no_op [OF idle, of "[CountdownTimerFires]" "[]"]
  have at2: "countdown (page_run (clickStart initialPage) [CountdownTimerFires]) = Some 2"
    by (simp add: page_run_def clickStart_def startButtonShown_def initialPage_def
        handleStart_def countdownTimerFires_def setCountdown_def countdownEffect_def)
  have "clickStart (page_run (clickStart initialPage) [CountdownTimerFires])
      = page_run (clickStart initialPage) [CountdownTimerFires]"
    using inst by blast
  then have "countdown (clickStart (page_run (clickStart initialPage) [CountdownTimerFires]))
      = Some 2"
    using at2 by simp
  moreover have "countdown (clickStart initialPage) = Some 3"
    and "clickStart (clickStart initialPage) = clickStart initialPage"
    using inst by blast+
  ultimately show ?thesis
    using at2 by (simp only: simp_thms)
qed

section \<open>Properties of the snapshot handler\<close>

lemma roundTiesToEven_le:
  assumes "y \<le> of_int N"
  shows "roundTiesToEven y \<le> N"
proof -
  have fl: "\<lfloor>y\<rfloor> \<le> N"
    using assms by (simp add: floor_le_iff)
  show ?thesis
  proof (cases "y = of_int \<lfloor>y\<rfloor>")
    case True
    then have "y - of_int \<lfloor>y\<rfloor> < 1 / 2"
      by simp
    then show ?thesis
      using fl by (simp add: roundTiesToEven_def Let_def)
  next
    case False
    then have "of_int \<lfloor>y\<rfloor> < y"
      by (metis of_int_floor_le order_less_le)
    with assms have "of_int \<lfloor>y\<rfloor> < (of_int N :: real)"
      by linarith
    then have "\<lfloor>y\<rfloor> < N"
      by simp
    then show ?thesis
      by (simp add: roundTiesToEven_def Let_def)
  qed
qed

lemma roundTiesToEven_ge:
  assumes "of_int N \<le> y"
  shows "N \<le> roundTiesToEven y"
proof -
  have "N \<le> \<lfloor>y\<rfloor>"
    using assms by (simp add: le_floor_iff)
  then show ?thesis
    by (simp add: roundTiesToEven_def Let_def)
qed

lemma quantum_nonpos:
  assumes "0 < x" and "x < 2 ^ 53"
  shows "quantum x \<le> 0"
proof -
  have "log 2 x < 53"
    using assms by (simp add: log_less_iff powr_realpow [symmetric] del: powr_numeral)
  then have "\<lfloor>log 2 x\<rfloor> \<le> 52"
    by (simp add: floor_le_iff)
  then show ?thesis
    using assms by (simp add: quantum_def)
qed

lemma int_over_quantum:
  assumes "q \<le> 0"
  shows "of_int N / (2::real) powi q = of_int (N * 2 ^ nat (- q))"
proof -
  have "(2::real) powi q = inverse (2 ^ nat (- q))"
    using assms by (auto simp: power_int_def power_one_over inverse_eq_divide)
  then show ?thesis
    by (simp add: divide_inverse)
qed

text \<open>
  Below \<open>2 ^ 53\<close> every integer is a binary64 value, so rounding a product does not carry
  it across an integer.
\<close>

lemma binary64_le_integer:
  assumes pos: "0 \<le> x" and small: "x < 2 ^ 53" and le: "x \<le> of_int N"
  shows "binary64 x \<le> of_int N"
proof (cases "x = 0")
  case True
  with le show ?thesis
    by (simp add: binary64_def)
next
  case False
  let ?s = "(2::real) powi quantum x"
  have s: "0 < ?s"
    by simp
  from False pos have "0 < x"
    by simp
  then have q: "quantum x \<le> 0"
    using small by (rule quantum_nonpos)
  have "x / ?s \<le> of_int N / ?s"
    using le s by (simp add: divide_right_mono)
  then have "x / ?s \<le> of_int (N * 2 ^ nat (- quantum x))"
    by (simp only: int_over_quantum [OF q])
  then have "roundTiesToEven (x / ?s) \<le> N * 2 ^ nat (- quantum x)"
    by (rule roundTiesToEven_le)
  then have "(of_int (roundTiesToEven (x / ?s)) :: real) \<le> of_int (N * 2 ^ nat (- quantum x))"
    by (simp only: of_int_le_iff)
  also have "\<dots> = of_int N / ?s"
    by (simp only: int_over_quantum [OF q])
  finally have "of_int (roundTiesToEven (x / ?s)) * ?s \<le> of_int N"
    using s by (simp add: pos_le_divide_eq)
  with False show ?thesis
    by (simp add: binary64_def)
qed

lemma binary64_ge_integer:
  assumes pos: "0 \<le> x" and small: "x < 2 ^ 53" and ge: "of_int N \<le> x"
  shows "of_int N \<le> binary64 x"
proof (cases "x = 0")
  case True
  with ge show ?thesis
    by (simp add: binary64_def)
next
  case False
  let ?s = "(2::real) powi quantum x"
  have s: "0 < ?s"
    by simp
  from False pos have "0 < x"
    by simp
  then have q: "quantum x \<le> 0"
    using small by (rule quantum_nonpos)
  have "of_int N / ?s \<le> x / ?s"
    using ge s by (simp add: divide_right_mono)
  then have "of_int (N * 2 ^ nat (- quantum x)) \<le> x / ?s"
    by (simp only: int_over_quantum [OF q])
  then have "N * 2 ^ nat (- quantum x) \<le> roundTiesToEven (x / ?s)"
    by (rule roundTiesToEven_ge)
  then have "(of_int (N * 2 ^ nat (- quantum x)) :: real) \<le> of_int (roundTiesToEven (x / ?s))"
    by (simp only: of_int_le_iff)
  then have "of_int N / ?s \<le> of_int (roundTiesToEven (x / ?s))"
    by (simp only: int_over_quantum [OF q])
  then have "of_int N \<le> of_int (roundTiesToEven (x / ?s)) * ?s"
    using s by (simp add: pos_divide_le_eq)
  with False show ?thesis
    by (simp add: binary64_def)
qed

lemma binary64_of_int:
  assumes "0 \<le> n" and "n < 2 ^ 53"
  shows "binary64 (of_int n) = of_int n"
proof -
  have pos: "(0::real) \<le> of_int n" and small: "(of_int n :: real) < 2 ^ 53"
    using assms by simp_all
  have "binary64 (of_int n) \<le> of_int n"
    by (rule binary64_le_integer [OF pos small]) simp
  moreover have "of_int n \<le> binary64 (of_int n)"
    by (rule binary64_ge_integer [OF pos small]) simp
  ultimately show ?thesis
    by simp
qed

lemma quantum_eval:
  assumes "2 powi e \<le> \<bar>x\<bar>" and "\<bar>x\<bar> < 2 powi (e + 1)"
  shows "quantum x = max (e - 52) (- 1074)"
proof -
  have pos: "0 < \<bar>x\<bar>"
    using assms(1) by (smt (verit) zero_less_power_int)
  have a: "(2::real) powr of_int e = 2 powi e"
    by (rule powr_real_of_int') simp_all
  have b: "(2::real) powr of_int (e + 1) = 2 powi (e + 1)"
    by (rule powr_real_of_int') simp_all
  have "\<lfloor>log 2 \<bar>x\<bar>\<rfloor> = e"
    using assms pos by (simp only: floor_log_eq_powr_iff a b)
  then show ?thesis
    by (simp add: quantum_def)
qed

lemma mathRound_binary64_percent:
  assumes "0 \<le> x" and "x \<le> 100"
  shows "0 \<le> mathRound (binary64 x)" and "mathRound (binary64 x) \<le> 100"
    and "\<lfloor>x\<rfloor> \<le> mathRound (binary64 x)" and "mathRound (binary64 x) \<le> \<lfloor>x\<rfloor> + 1"
proof -
  have small: "x < 2 ^ 53"
    using assms(2) by simp
  have lo: "of_int \<lfloor>x\<rfloor> \<le> binary64 x"
    by (rule binary64_ge_integer [OF assms(1) small]) simp
  have hi: "binary64 x \<le> of_int (\<lfloor>x\<rfloor> + 1)"
    by (rule binary64_le_integer [OF assms(1) small]) linarith
  have top: "binary64 x \<le> of_int 100"
    by (rule binary64_le_integer [OF assms(1) small]) (use assms(2) in simp)
  have bottom: "of_int 0 \<le> binary64 x"
    by (rule binary64_ge_integer [OF assms(1) small]) (use assms(1) in simp)
  show "0 \<le> mathRound (binary64 x)"
    using bottom by (simp add: mathRound_def)
  have "binary64 x + 1 / 2 < 101"
    using top by simp
  then have "\<lfloor>binary64 x + 1 / 2\<rfloor> < 101"
    by (simp only: floor_less_iff of_int_numeral)
  then show "mathRound (binary64 x) \<le> 100"
    by (simp add: mathRound_def)
  have "of_int \<lfloor>x\<rfloor> \<le> binary64 x + 1 / 2"
    using lo by simp
  then show "\<lfloor>x\<rfloor> \<le> mathRound (binary64 x)"
    by (simp only: mathRound_def le_floor_iff)
  have "binary64 x + 1 / 2 < of_int (\<lfloor>x\<rfloor> + 2)"
    using hi by simp
  then have "\<lfloor>binary64 x + 1 / 2\<rfloor> < \<lfloor>x\<rfloor> + 2"
    by (simp only: floor_less_iff)
  then show "mathRound (binary64 x) \<le> \<lfloor>x\<rfloor> + 1"
    by (simp add: mathRound_def)
qed

text \<open>
  C5. When a response with a comparison result whose combined score lies between 0 and 1
  is taken in by a started page, the overall accuracy becomes \<^verbatim>\<open>Math.round\<close> of the
  product \<^verbatim>\<open>combined_score * 100\<close>, the multiplication being the page's own, in
  binary64. It does so whatever the accuracy was before, so the value is replaced, not
  averaged. It is an integer between 0 and 100, and it is the exact product rounded to one
  of the two integers around it.
\<close>

theorem accuracy_replaced_by_rounded_score:
  assumes started: "hasStarted s"
    and result: "comparison_result feedback = Some cr"
    and range: "0 \<le> combined_score cr" "combined_score cr \<le> 1"
  defines "new \<equiv> overallAccuracy (handleSnapshot (Inr feedback) s)"
  shows "new = mathRound (binary64 (combined_score cr * 100))
       \<and> overallAccuracy (handleSnapshot (Inr feedback) (s\<lparr>overallAccuracy := previous\<rparr>)) = new
       \<and> 0 \<le> new \<and> new \<le> 100
       \<and> \<lfloor>combined_score cr * 100\<rfloor> \<le> new \<and> new \<le> \<lfloor>combined_score cr * 100\<rfloor> + 1"
proof -
  have set_to: "overallAccuracy (handleSnapshot (Inr feedback) s')
      = mathRound (binary64 (combined_score cr * 100))" if "hasStarted s'" for s'
    using that result by (simp add: handleSnapshot_def snapshotIssued_def snapshotSettled_def)
  have "hasStarted (s\<lparr>overallAccuracy := previous\<rparr>)"
    using started by simp
  note replaced = set_to [OF this]
  have product: "0 \<le> combined_score cr * 100" "combined_score cr * 100 \<le> 100"
    using range by simp_all
  from set_to [OF started] replaced mathRound_binary64_percent [OF product] show ?thesis
    by (simp add: new_def)
qed

text \<open>
  Two scores: 0.75, whose product with 100 is exact, replaces the 82 of the page by 75; the
  binary64 value next to 0.015, a little below it, has a product that rounds to 1.5 and
  gives 2.
\<close>

theorem accuracy_replaced_by_rounded_score_witness:
  "overallAccuracy runningPage = 82
   \<and> overallAccuracy (handleSnapshot (Inr (feedbackWithScore 0.75)) runningPage) = 75
   \<and> overallAccuracy (handleSnapshot
        (Inr (feedbackWithScore (8646911284551352 / 2 ^ 59))) runningPage) = 2"
proof -
  have started: "hasStarted runningPage"
    by (simp add: runningPage_eq)
  have before: "overallAccuracy runningPage = 82"
    by (simp add: runningPage_eq initialPage_def)
  let ?exact = "\<lparr>pose_score = 0.75, motion_score = 0.75, combined_score = 0.75,
                  best_match_idx = 0, timing_offset = 0\<rparr>"
  have "comparison_result (feedbackWithScore 0.75) = Some ?exact"
    by (simp add: feedbackWithScore_def)
  from accuracy_replaced_by_rounded_score [OF started this]
  have set_to_exact: "overallAccuracy (handleSnapshot (Inr (feedbackWithScore 0.75)) runningPage)
      = mathRound (binary64 (0.75 * 100))"
    by simp
  have product_exact: "binary64 (0.75 * 100) = 75"
    using binary64_of_int [of 75] by simp
  have "mathRound (binary64 (0.75 * 100)) = 75"
    unfolding product_exact by (simp add: mathRound_def)
  with set_to_exact have exact:
    "overallAccuracy (handleSnapshot (Inr (feedbackWithScore 0.75)) runningPage) = 75"
    by (simp only:)
  let ?c = "8646911284551352 / 2 ^ 59 :: real"
  let ?near = "\<lparr>pose_score = ?c, motion_score = ?c, combined_score = ?c,
                 best_match_idx = 0, timing_offset = 0\<rparr>"
  have "comparison_result (feedbackWithScore ?c) = Some ?near"
    by (simp add: feedbackWithScore_def)
  from accuracy_replaced_by_rounded_score [OF started this]
  have set_to: "overallAccuracy (handleSnapshot (Inr (feedbackWithScore ?c)) runningPage)
      = mathRound (binary64 (?c * 100))"
    by simp
  have "quantum (?c * 100) = - 52"
    using quantum_eval [of 0 "?c * 100"] by simp
  then have product: "binary64 (?c * 100) = 3 / 2"
    by (simp add: binary64_def roundTiesToEven_def Let_def)
  have "mathRound (binary64 (?c * 100)) = 2"
    unfolding product by (simp add: mathRound_def)
  with set_to have near:
    "overallAccuracy (handleSnapshot (Inr (feedbackWithScore ?c)) runningPage) = 2"
    by (simp only:)
  from before exact near show ?thesis
    by (simp only: simp_thms)
qed

text \<open>
  C6. Let the backend answer a snapshot with a status that is not a success, 500 for one.
  The hook's \<open>processSnapshot\<close> logs the error and rejects with it. A started page whose
  handler meets that rejection, or any other, is left as it was but for one more error line
  on the console: the current feedback and the overall accuracy are what they were, the
  page still asks the camera for snapshots as before, and the next snapshot is handled.
\<close>

theorem failed_snapshot_changes_nothing:
  fixes fetch :: "process_snapshot_response fetch" and snapshot :: string
    and d :: dance_session and s :: practice_page
  assumes started: "hasStarted s"
    and answered: "\<And>url init. fetch url init = Inr r"
    and failed: "\<not> ok r"
  defines "submitted \<equiv> sessionProcessSnapshot fetch snapshot d"
  defines "s' \<equiv> handleSnapshot (fst submitted) s"
  shows "fst submitted = Inl (HttpError (status r))
       \<and> snd submitted = d\<lparr>session_console := session_console d @
             [ConsoleError ''Failed to process snapshot:'' (HttpError (status r))]\<rparr>
       \<and> s' = s\<lparr>console := console s @
             [ConsoleError ''Error processing snapshot:'' (HttpError (status r))]\<rparr>
       \<and> handleSnapshot (Inl err) s = s\<lparr>console := console s @
             [ConsoleError ''Error processing snapshot:'' err]\<rparr>
       \<and> currentFeedback s' = currentFeedback s
       \<and> overallAccuracy s' = overallAccuracy s
       \<and> autoSnapshot s' = autoSnapshot s
       \<and> snapshotIssued s'
       \<and> currentFeedback (handleSnapshot (Inr feedback) s') = Some feedback"
proof -
  have "processSnapshot fetch snapshot = Inl (HttpError (status r))"
    using request_response [OF answered] failed by (simp add: processSnapshot_def)
  then have sub: "submitted = (Inl (HttpError (status r)), d\<lparr>session_console := session_console d @
             [ConsoleError ''Failed to process snapshot:'' (HttpError (status r))]\<rparr>)"
    by (simp add: submitted_def sessionProcessSnapshot_def)
  have any: "handleSnapshot (Inl e) s = s\<lparr>console := console s @
             [ConsoleError ''Error processing snapshot:'' e]\<rparr>" for e
    using started by (simp add: handleSnapshot_def snapshotIssued_def snapshotSettled_def)
  have page: "s' = s\<lparr>console := console s @
             [ConsoleError ''Error processing snapshot:'' (HttpError (status r))]\<rparr>"
    by (simp add: s'_def sub any)
  have next_one: "currentFeedback (handleSnapshot (Inr feedback) s') = Some feedback"
    using started by (simp add: page handleSnapshot_def snapshotIssued_def snapshotSettled_def)
  from sub any page next_one started show ?thesis
    by (simp add: autoSnapshot_def snapshotIssued_def)
qed

theorem failed_snapshot_changes_nothing_witness:
  "fst (sessionProcessSnapshot
          (\<lambda>url init. Inr \<lparr>status = 500, json = Inr (feedbackWithScore 0.75)\<rparr>) ''image''
          \<lparr>sessionId = Some ''s1'', isSessionActive = True, session_console = []\<rparr>)
      = Inl (HttpError 500)
   \<and> handleSnapshot (Inl (HttpError 500)) runningPage
      = runningPage\<lparr>console := [ConsoleError ''Error processing snapshot:'' (HttpError 500)]\<rparr>
   \<and> currentFeedback (handleSnapshot (Inl (HttpError 500)) runningPage) = None
   \<and> overallAccuracy (handleSnapshot (Inl (HttpError 500)) runningPage) = 82
   \<and> autoSnapshot (handleSnapshot (Inl (HttpError 500)) runningPage)"
proof -
  let ?r = "\<lparr>status = 500, json = Inr (feedbackWithScore 0.75)\<rparr>
              :: process_snapshot_response response"
  let ?d = "\<lparr>sessionId = Some ''s1'', isSessionActive = True, session_console = []\<rparr>"
  have started: "hasStarted runningPage"
    by (simp add: runningPage_eq)
  have failed: "\<not> ok ?r"
    by (simp add: ok_def)
  have answered: "(\<lambda>url init. Inr ?r) url init = Inr ?r" for url :: string and init :: request_init
    by simp
  note inst = failed_snapshot_changes_nothing
      [of runningPage "\<lambda>url init. Inr ?r" ?r "''image''" ?d "HttpError 500",
       OF started answered failed]
  have submitted: "fst (sessionProcessSnapshot (\<lambda>url init. Inr ?r) ''image'' ?d)
      = Inl (HttpError 500)"
    using inst [THEN conjunct1] by simp
  have logged: "handleSnapshot (Inl (HttpError 500)) runningPage
      = runningPage\<lparr>console := [ConsoleError ''Error processing snapshot:'' (HttpError 500)]\<rparr>"
    using inst [THEN conjunct2, THEN conjunct2, THEN conjunct2, THEN conjunct1]
    by (simp add: runningPage_eq initialPage_def)
  have "currentFeedback (handleSnapshot (Inl (HttpError 500)) runningPage) = None"
    and "overallAccuracy (handleSnapshot (Inl (HttpError 500)) runningPage) = 82"
    and "autoSnapshot (handleSnapshot (Inl (HttpError 500)) runningPage)"
    unfolding logged by (simp_all add: runningPage_eq initialPage_def autoSnapshot_def)
  with submitted logged show ?thesis
    by (simp only: simp_thms)
qed

text \<open>
  C7 (as stated). A page in practice takes a snapshot request in hand; while the request is
  awaited the capture hook reports that it no longer captures, so the page no longer asks
  for snapshots. When the response arrives it is applied all the same: the current feedback
  and the overall accuracy change.
\<close>

theorem stale_result_counterexample:
  "snapshotIssued runningPage
   \<and> autoSnapshot runningPage
   \<and> \<not> autoSnapshot (page_step runningPage (CapturingChanged False))
   \<and> currentFeedback (page_step runningPage (CapturingChanged False)) = None
   \<and> overallAccuracy (page_step runningPage (CapturingChanged False)) = 82
   \<and> currentFeedback (snapshotSettled (Inr (feedbackWithScore 0.5))
         (page_step runningPage (CapturingChanged False))) = Some (feedbackWithScore 0.5)
   \<and> overallAccuracy (snapshotSettled (Inr (feedbackWithScore 0.5))
         (page_step runningPage (CapturingChanged False))) = 50"
proof -
  have "binary64 (0.5 * 100) = 50"
    using binary64_of_int [of 50] by simp
  then show ?thesis
    by (simp add: runningPage_eq initialPage_def snapshotIssued_def autoSnapshot_def
        snapshotSettled_def feedbackWithScore_def mathRound_def)
qed

text \<open>
  C7 (amended). The handler tests \<open>hasStarted\<close> once, before the request: a snapshot that
  meets a page that has not started changes nothing. After the awaited response there is
  no second test: in whatever state the page is by then, a fulfilled response becomes the
  current feedback, and its comparison result, when it has one, sets the overall accuracy.
\<close>

theorem settled_result_applied_unchecked:
  "currentFeedback (snapshotSettled (Inr feedback) s) = Some feedback
   \<and> overallAccuracy (snapshotSettled (Inr feedback) s) =
       (case comparison_result feedback of
          Some cr \<Rightarrow> mathRound (binary64 (combined_score cr * 100))
        | None \<Rightarrow> overallAccuracy s)
   \<and> handleSnapshot outcome (s\<lparr>hasStarted := False\<rparr>) = s\<lparr>hasStarted := False\<rparr>"
  by (simp add: snapshotSettled_def handleSnapshot_def snapshotIssued_def)

section \<open>Properties of the feedback column\<close>










text \<open>
  The callback itself removes nothing: the message that arrives is appended to the
  messages shown.
\<close>

lemma arrival_appends:
  "feedbackMessages (intervalCallback m s) =
     feedbackMessages s @
       [\<lparr>message_id = messageId s + 1, message_text = fst m, message_type = snd m\<rparr>]"
  by (simp add: intervalCallback_def Let_def)



end
